theory Spec2Isabelle
  imports Main
begin

section \<open>Values, exceptions and the process state\<close>

text \<open>
  The engine (\<^verbatim>\<open>hooks/ralph_loop_engine.py\<close>) works on two documents decoded by
  \<^verbatim>\<open>json.load\<close>. A decoded document is a value of \<open>json\<close>; a Python dict is an
  association list in insertion order, looked up with \<open>map_of\<close>. JSON numbers with a
  fraction or an exponent (Python floats) are not represented.
\<close>

datatype json =
    JNull
  | JBool bool
  | JInt int
  | JStr string
  | JList "json list"
  | JObj "(string \<times> json) list"

type_synonym dict = "(string \<times> json) list"

text \<open>
  What \<^verbatim>\<open>open(path, "r")\<close> raises where there is no file to open: no such entry, a
  component of the path that is not a directory, a name that is too long (a plain
  \<^verbatim>\<open>OSError\<close>), or a path with a NUL character. Only the first is a \<^verbatim>\<open>FileNotFoundError\<close>;
  \<^verbatim>\<open>os.path.exists\<close> is false in all four cases.
\<close>

datatype open_error = FileNotFoundError | NotADirectoryError | OSError | ValueError

datatype exn =
    JSONDecodeError | AttributeError | TypeError | ZeroDivisionError | IndexError
  | Open open_error

text \<open>
  How an invocation ends: \<open>Returned\<close> is a normal return of \<^verbatim>\<open>main\<close>, \<open>Raised e\<close> an
  exception that leaves \<^verbatim>\<open>main\<close>, and \<open>Unmodelled\<close> marks a run that leaves the fragment
  of Python described here (an integer used as a path, a phase list that is not a list of
  strings, a command that is not a string); nothing is proved about such runs.
\<close>

datatype outcome = Returned | Raised exn | Unmodelled

datatype 'a step = Next 'a | Halt outcome

text \<open>
  Standard output is a list of chunks: \<open>Print s\<close> is a call \<^verbatim>\<open>print(s)\<close>, \<open>Write s\<close> a call
  \<^verbatim>\<open>sys.stdout.write(s)\<close>. The only \<open>Write\<close> of the engine is the transition payload.
\<close>

datatype chunk = Print string | Write string

text \<open>
  What an invocation finds: the environment variables, the files (path to text; every file
  is a readable regular file), for a path that holds no file the way \<^verbatim>\<open>open\<close> fails there
  (\<open>no_file\<close>), and the library and host calls the engine makes, taken as given:
  \<open>json_loads\<close> is \<^verbatim>\<open>json.load\<close> on a file's text (\<open>None\<close> is \<^verbatim>\<open>JSONDecodeError\<close>),
  \<open>json_dumps indent\<close> is \<^verbatim>\<open>json.dump\<close>/\<^verbatim>\<open>json.dumps\<close>, \<open>py_str\<close> is Python's \<^verbatim>\<open>str\<close> on a
  value that is not a string, \<open>str_lower\<close> is \<^verbatim>\<open>str.lower\<close>, and \<open>shell done c\<close> tells whether
  \<^verbatim>\<open>subprocess.run(c, shell=True, check=True)\<close> returns (\<open>True\<close>) or raises
  \<^verbatim>\<open>CalledProcessError\<close> (\<open>False\<close>) after the commands \<open>done\<close> have run. A command is seen
  through its exit status only.
\<close>

record world =
  environ :: "string \<rightharpoonup> string"
  files :: "string \<rightharpoonup> string"
  no_file :: "string \<Rightarrow> open_error"
  json_loads :: "string \<Rightarrow> json option"
  json_dumps :: "nat option \<Rightarrow> json \<Rightarrow> string"
  py_str :: "json \<Rightarrow> string"
  str_lower :: "string \<Rightarrow> string"
  shell :: "string list \<Rightarrow> string \<Rightarrow> bool"

text \<open>
  What an invocation does: the chunks written to standard output, the commands run, the
  files as they are now, and the log of the calls \<^verbatim>\<open>json.dump(state, f, indent=2)\<close> (the path
  of \<^verbatim>\<open>f\<close> and the value dumped), each in order.
\<close>

record proc =
  out :: "chunk list"
  ran :: "string list"
  disk :: "string \<rightharpoonup> string"
  saved :: "(string \<times> json) list"

section \<open>Python operations used by the engine\<close>

fun truthy :: "json \<Rightarrow> bool" where
  "truthy JNull = False"
| "truthy (JBool b) = b"
| "truthy (JInt n) = (n \<noteq> 0)"
| "truthy (JStr s) = (s \<noteq> [])"
| "truthy (JList xs) = (xs \<noteq> [])"
| "truthy (JObj kvs) = (kvs \<noteq> [])"

definition dict_get :: "dict \<Rightarrow> string \<Rightarrow> json \<Rightarrow> json" where
  \<comment> \<open>\<^verbatim>\<open>d.get(k, dflt)\<close>\<close>
  "dict_get d k dflt = (case map_of d k of None \<Rightarrow> dflt | Some v \<Rightarrow> v)"

fun setitem :: "string \<Rightarrow> json \<Rightarrow> dict \<Rightarrow> dict" where
  \<comment> \<open>\<^verbatim>\<open>d[k] = v\<close>: an existing key keeps its place, a new key goes last\<close>
  "setitem k v [] = [(k, v)]"
| "setitem k v ((k', v') # kvs) =
     (if k' = k then (k, v) # kvs else (k', v') # setitem k v kvs)"

definition fmt :: "world \<Rightarrow> json \<Rightarrow> string" where
  \<comment> \<open>a value inside an f-string\<close>
  "fmt w v = (case v of JStr s \<Rightarrow> s | _ \<Rightarrow> py_str w v)"

definition path_join :: "string \<Rightarrow> string \<Rightarrow> string" where
  \<comment> \<open>\<^verbatim>\<open>os.path.join(a, b)\<close> of \<^verbatim>\<open>posixpath\<close>\<close>
  "path_join a b =
     (if b \<noteq> [] \<and> hd b = CHR ''/'' then b
      else if a = [] \<or> last a = CHR ''/'' then a @ b
      else a @ ''/'' @ b)"

primrec contains :: "string \<Rightarrow> string \<Rightarrow> bool" where
  \<comment> \<open>\<^verbatim>\<open>sub in s\<close> on two strings\<close>
  "contains sub [] = (sub = [])"
| "contains sub (c # cs) = (take (length sub) (c # cs) = sub \<or> contains sub cs)"

fun strings :: "json list \<Rightarrow> string list option" where
  "strings [] = Some []"
| "strings (JStr s # vs) = map_option ((#) s) (strings vs)"
| "strings (_ # vs) = None"

fun list_index :: "string list \<Rightarrow> json \<Rightarrow> nat option" where
  \<comment> \<open>\<^verbatim>\<open>xs.index(v)\<close> on a list of strings; \<open>None\<close> is \<^verbatim>\<open>ValueError\<close>\<close>
  "list_index [] v = None"
| "list_index (x # xs) v =
     (if JStr x = v then Some 0 else map_option Suc (list_index xs v))"

definition py_mod :: "int \<Rightarrow> int \<Rightarrow> exn + int" where
  "py_mod a b = (if b = 0 then Inl ZeroDivisionError else Inr (a mod b))"

definition py_nth :: "'a list \<Rightarrow> int \<Rightarrow> exn + 'a" where
  \<comment> \<open>\<^verbatim>\<open>xs[i]\<close>, where \<^verbatim>\<open>xs[-1]\<close> is the last element\<close>
  "py_nth xs i =
     (if 0 \<le> i \<and> i < int (length xs) then Inr (xs ! nat i)
      else if - int (length xs) \<le> i \<and> i < 0 then Inr (xs ! nat (int (length xs) + i))
      else Inl IndexError)"

fun py_add1 :: "json \<Rightarrow> exn + json" where
  \<comment> \<open>\<^verbatim>\<open>v + 1\<close>\<close>
  "py_add1 (JInt n) = Inr (JInt (n + 1))"
| "py_add1 (JBool b) = Inr (JInt ((if b then 1 else 0) + 1))"
| "py_add1 _ = Inl TypeError"

definition say :: "string \<Rightarrow> proc \<Rightarrow> proc" where
  \<comment> \<open>\<^verbatim>\<open>print(s)\<close>\<close>
  "say s p = p\<lparr>out := out p @ [Print s]\<rparr>"

section \<open>The command runner\<close>

definition run_command :: "world \<Rightarrow> json \<Rightarrow> proc \<Rightarrow> bool step \<times> proc" where
  "run_command w command p =
     (if \<not> truthy command then (Next True, p)
      else
        let p1 = say (''[Ralph Engine] Running: '' @ fmt w command) p in
        case command of
          JStr c \<Rightarrow>
            (let p2 = p1\<lparr>ran := ran p1 @ [c]\<rparr> in
             if shell w (ran p1) c then (Next True, p2)
             else (Next False, say (''[Ralph Engine] Command failed: '' @ c) p2))
        | _ \<Rightarrow> (Halt Unmodelled, p1))"

section \<open>The transition engine\<close>

definition CONFIG_PATH :: string where
  "CONFIG_PATH = path_join (path_join ''.gemini'' ''ralph'') ''config.json''"

definition load_configuration :: "world \<Rightarrow> json step" where
  \<comment> \<open>step 1; only \<^verbatim>\<open>FileNotFoundError\<close> is caught\<close>
  "load_configuration w =
     (case files w CONFIG_PATH of
        None \<Rightarrow>
          (case no_file w CONFIG_PATH of
             FileNotFoundError \<Rightarrow> Halt Returned
           | e \<Rightarrow> Halt (Raised (Open e)))
      | Some text \<Rightarrow>
          (case json_loads w text of
             None \<Rightarrow> Halt (Raised JSONDecodeError)
           | Some config \<Rightarrow> Next config))"

definition resolve_paths :: "world \<Rightarrow> json \<Rightarrow> (dict \<times> json \<times> json) step" where
  \<comment> \<open>step 2; \<^verbatim>\<open>PROJECT_DIR\<close> is assigned and not used afterwards\<close>
  "resolve_paths w config =
     (let PROJECT_DIR = (case environ w ''GEMINI_PROJECT_DIR'' of None \<Rightarrow> ''.'' | Some d \<Rightarrow> d) in
      case config of
        JObj cfg \<Rightarrow>
          (let STATE_FILE =
                 dict_get cfg ''state_file''
                   (JStr (path_join (path_join ''.gemini'' ''ralph'') ''state.json''));
               PROMPTS_DIR =
                 dict_get cfg ''prompts_dir''
                   (JStr (path_join (path_join ''.gemini'' ''ralph'') ''prompts''))
           in Next (cfg, STATE_FILE, PROMPTS_DIR))
      | _ \<Rightarrow> Halt (Raised AttributeError))"

definition load_state :: "world \<Rightarrow> json \<Rightarrow> (string \<times> json) step" where
  \<comment> \<open>step 3; \<^verbatim>\<open>os.path.exists\<close> is false wherever there is no file\<close>
  "load_state w STATE_FILE =
     (case STATE_FILE of
        JStr sf \<Rightarrow>
          (case files w sf of
             None \<Rightarrow> Halt Returned
           | Some text \<Rightarrow>
               (case json_loads w text of
                  None \<Rightarrow> Halt Returned
                | Some state \<Rightarrow> Next (sf, state)))
      | JInt _ \<Rightarrow> Halt Unmodelled
      | JBool _ \<Rightarrow> Halt Unmodelled
      | _ \<Rightarrow> Halt (Raised TypeError))"

definition check_status :: "json \<Rightarrow> (dict \<times> json) step" where
  \<comment> \<open>step 4\<close>
  "check_status state =
     (case state of
        JObj st \<Rightarrow>
          (let current_status = dict_get st ''status'' JNull in
           if current_status \<noteq> JStr ''COMPLETED'' \<and> current_status \<noteq> JStr ''FAILED''
           then Halt Returned
           else Next (st, current_status))
      | _ \<Rightarrow> Halt (Raised AttributeError))"

definition failure_recovery ::
  "world \<Rightarrow> dict \<Rightarrow> dict \<Rightarrow> string list \<Rightarrow> json \<Rightarrow> proc \<Rightarrow> (string \<times> dict) step \<times> proc" where
  "failure_recovery w cfg st phases current_phase p =
     (let p1 = say (''[Ralph Engine] Phase '' @ fmt w current_phase
                      @ '' FAILED. Initiating recovery...'') p;
          cleanup_cmd = dict_get cfg ''cleanup_command'' JNull
      in
      case (if truthy cleanup_cmd then run_command w cleanup_cmd p1 else (Next True, p1)) of
        (Halt h, p2) \<Rightarrow> (Halt h, p2)
      | (Next False, p2) \<Rightarrow>
          (Halt Returned, say ''[Ralph Engine] Cleanup failed. Aborting loop.'' p2)
      | (Next True, p2) \<Rightarrow>
          (case py_nth phases 0 of
             Inl e \<Rightarrow> (Halt (Raised e), p2)
           | Inr next_phase \<Rightarrow>
               (case py_add1 (dict_get st ''iteration'' (JInt 1)) of
                  Inl e \<Rightarrow> (Halt (Raised e), p2)
                | Inr it \<Rightarrow> (Next (next_phase, setitem ''iteration'' it st), p2))))"

definition success_transition ::
  "dict \<Rightarrow> string list \<Rightarrow> int \<Rightarrow> (string \<times> dict) step" where
  "success_transition st phases current_idx =
     (case py_mod (current_idx + 1) (int (length phases)) of
        Inl e \<Rightarrow> Halt (Raised e)
      | Inr next_idx \<Rightarrow>
          (case py_nth phases next_idx of
             Inl e \<Rightarrow> Halt (Raised e)
           | Inr next_phase \<Rightarrow>
               if next_idx = 0 then
                 (case py_add1 (dict_get st ''iteration'' (JInt 1)) of
                    Inl e \<Rightarrow> Halt (Raised e)
                  | Inr it \<Rightarrow> Next (next_phase, setitem ''iteration'' it st))
               else Next (next_phase, st)))"

definition determine_transition ::
  "world \<Rightarrow> dict \<Rightarrow> dict \<Rightarrow> json \<Rightarrow> proc \<Rightarrow> (string \<times> dict) step \<times> proc" where
  \<comment> \<open>step 5\<close>
  "determine_transition w cfg st current_status p =
     (let phases = dict_get cfg ''phases'' (JList []);
          current_phase = dict_get st ''phase'' JNull
      in
      if \<not> truthy phases then
        (Halt Returned,
         say ''[Ralph Engine] Error: No phases defined in .gemini/ralph/config.json'' p)
      else
        case phases of
          JList xs \<Rightarrow>
            (case strings xs of
               None \<Rightarrow> (Halt Unmodelled, p)
             | Some ps \<Rightarrow>
                 (let current_idx =
                        (case list_index ps current_phase of None \<Rightarrow> - 1 | Some i \<Rightarrow> int i)
                  in
                  if current_status = JStr ''FAILED''
                  then failure_recovery w cfg st ps current_phase p
                  else (success_transition st ps current_idx, p)))
        | JStr s \<Rightarrow> (Halt Unmodelled, p)
        | _ \<Rightarrow> (Halt (Raised AttributeError), p))"

definition pre_phase :: "world \<Rightarrow> dict \<Rightarrow> string \<Rightarrow> proc \<Rightarrow> unit step \<times> proc" where
  \<comment> \<open>step 6\<close>
  "pre_phase w cfg next_phase p =
     (case dict_get cfg ''phase_scripts'' (JObj []) of
        JObj scripts \<Rightarrow>
          (case map_of scripts next_phase of
             None \<Rightarrow> (Next (), p)
           | Some script \<Rightarrow>
               (case run_command w script p of
                  (Halt h, p1) \<Rightarrow> (Halt h, p1)
                | (Next ok, p1) \<Rightarrow>
                    (Next (),
                     if ok then p1
                     else say (''[Ralph Engine] Pre-phase script for '' @ next_phase
                                 @ '' failed.'') p1)))
      | JList xs \<Rightarrow>
          (if JStr next_phase \<in> set xs then (Halt (Raised TypeError), p) else (Next (), p))
      | JStr s \<Rightarrow>
          (if contains next_phase s then (Halt (Raised TypeError), p) else (Next (), p))
      | _ \<Rightarrow> (Halt (Raised TypeError), p))"

definition update_state :: "world \<Rightarrow> string \<Rightarrow> dict \<Rightarrow> string \<Rightarrow> proc \<Rightarrow> dict \<times> proc" where
  \<comment> \<open>step 7\<close>
  "update_state w sf st next_phase p =
     (let st1 = setitem ''phase'' (JStr next_phase) st;
          st2 = setitem ''status'' (JStr ''ACTIVE'') st1;
          text = json_dumps w (Some 2) (JObj st2)
      in (st2, p\<lparr>disk := (disk p)(sf \<mapsto> text), saved := saved p @ [(sf, JObj st2)]\<rparr>))"

definition missing_prompt :: "string \<Rightarrow> string \<Rightarrow> string" where
  "missing_prompt prompt_path next_phase =
     ''Error: Prompt file '' @ [CHR 0x27] @ prompt_path @ [CHR 0x27]
       @ '' not found for phase '' @ next_phase @ ''.''"

definition load_prompt :: "world \<Rightarrow> json \<Rightarrow> string \<Rightarrow> proc \<Rightarrow> string step" where
  \<comment> \<open>step 8; only \<^verbatim>\<open>FileNotFoundError\<close> is caught\<close>
  "load_prompt w PROMPTS_DIR next_phase p =
     (let prompt_filename = str_lower w next_phase @ ''.md'' in
      case PROMPTS_DIR of
        JStr d \<Rightarrow>
          (let prompt_path = path_join d prompt_filename in
           case disk p prompt_path of
             Some text \<Rightarrow> Next text
           | None \<Rightarrow>
               (case no_file w prompt_path of
                  FileNotFoundError \<Rightarrow> Next (missing_prompt prompt_path next_phase)
                | e \<Rightarrow> Halt (Raised (Open e))))
      | _ \<Rightarrow> Halt (Raised TypeError))"

definition response :: "world \<Rightarrow> string \<Rightarrow> string \<Rightarrow> dict \<Rightarrow> json" where
  \<comment> \<open>step 9\<close>
  "response w next_phase next_prompt_content st =
     (let full_prompt =
            ''['' @ next_phase @ '' PHASE]'' @ [CHR 0x0A, CHR 0x0A] @ next_prompt_content
      in
      JObj [(''clearContext'', JBool True),
            (''decision'', JStr ''deny''),
            (''reason'', JStr full_prompt),
            (''systemMessage'',
             JStr (''Transitioning to '' @ next_phase @ '' phase (Iteration ''
                     @ fmt w (dict_get st ''iteration'' (JInt 1)) @ '')''))])"

definition emit :: "world \<Rightarrow> json \<Rightarrow> proc \<Rightarrow> proc" where
  \<comment> \<open>step 10\<close>
  "emit w resp p = p\<lparr>out := out p @ [Write (json_dumps w None resp)]\<rparr>"

definition transition ::
  "world \<Rightarrow> dict \<Rightarrow> string \<Rightarrow> json \<Rightarrow> dict \<Rightarrow> json \<Rightarrow> proc \<Rightarrow> outcome \<times> proc" where
  \<comment> \<open>steps 5 to 10 of \<^verbatim>\<open>main\<close>\<close>
  "transition w cfg sf PROMPTS_DIR st current_status p0 =
     (case determine_transition w cfg st current_status p0 of
        (Halt h, p1) \<Rightarrow> (h, p1)
      | (Next (next_phase, st1), p1) \<Rightarrow>
      (case pre_phase w cfg next_phase p1 of
        (Halt h, p2) \<Rightarrow> (h, p2)
      | (Next u, p2) \<Rightarrow>
      (case update_state w sf st1 next_phase p2 of
        (st2, p3) \<Rightarrow>
      (case load_prompt w PROMPTS_DIR next_phase p3 of
        Halt h \<Rightarrow> (h, p3)
      | Next next_prompt_content \<Rightarrow>
          (Returned, emit w (response w next_phase next_prompt_content st2) p3)))))"

definition start :: "world \<Rightarrow> proc" where
  "start w = \<lparr>out = [], ran = [], disk = files w, saved = []\<rparr>"

definition main :: "world \<Rightarrow> outcome \<times> proc" where
  "main w =
     (let p0 = start w in
      case load_configuration w of
        Halt h \<Rightarrow> (h, p0)
      | Next config \<Rightarrow>
      (case resolve_paths w config of
        Halt h \<Rightarrow> (h, p0)
      | Next (cfg, STATE_FILE, PROMPTS_DIR) \<Rightarrow>
      (case load_state w STATE_FILE of
        Halt h \<Rightarrow> (h, p0)
      | Next (sf, state) \<Rightarrow>
      (case check_status state of
        Halt h \<Rightarrow> (h, p0)
      | Next (st, current_status) \<Rightarrow>
          transition w cfg sf PROMPTS_DIR st current_status p0))))"

section \<open>Vocabulary of the properties\<close>

text \<open>
  \<open>loaded w cfg sf st\<close>: in \<open>w\<close> the config file holds the dict \<open>cfg\<close>, which names the
  state file \<open>sf\<close>, and the state file holds the dict \<open>st\<close>.
\<close>

definition loaded :: "world \<Rightarrow> dict \<Rightarrow> string \<Rightarrow> dict \<Rightarrow> bool" where
  "loaded w cfg sf st \<longleftrightarrow>
     (case files w CONFIG_PATH of
        None \<Rightarrow> False
      | Some text \<Rightarrow> json_loads w text = Some (JObj cfg))
     \<and> dict_get cfg ''state_file''
           (JStr (path_join (path_join ''.gemini'' ''ralph'') ''state.json'')) = JStr sf
     \<and> (case files w sf of
          None \<Rightarrow> False
        | Some text \<Rightarrow> json_loads w text = Some (JObj st))"

definition prompts_dir :: "dict \<Rightarrow> json" where
  "prompts_dir cfg =
     dict_get cfg ''prompts_dir'' (JStr (path_join (path_join ''.gemini'' ''ralph'') ''prompts''))"

fun is_command :: "string \<times> json \<Rightarrow> bool" where
  "is_command (k, JStr c) = True"
| "is_command (k, v) = False"

text \<open>The pre-phase commands of a config, when given, map phase names to command strings.\<close>

definition scripts_typed :: "dict \<Rightarrow> bool" where
  "scripts_typed cfg =
     (case map_of cfg ''phase_scripts'' of
        None \<Rightarrow> True
      | Some (JObj scripts) \<Rightarrow> list_all is_command scripts
      | Some _ \<Rightarrow> False)"

text \<open>The cleanup command is absent (or empty), or it is a command that exits with success.\<close>

definition cleanup_succeeds :: "world \<Rightarrow> dict \<Rightarrow> bool" where
  "cleanup_succeeds w cfg =
     (case dict_get cfg ''cleanup_command'' JNull of
        JStr c \<Rightarrow> c = [] \<or> shell w [] c
      | v \<Rightarrow> \<not> truthy v)"

text \<open>The cleanup command is present and exits with failure.\<close>

definition cleanup_fails :: "world \<Rightarrow> dict \<Rightarrow> bool" where
  "cleanup_fails w cfg =
     (case dict_get cfg ''cleanup_command'' JNull of
        JStr c \<Rightarrow> c \<noteq> [] \<and> \<not> shell w [] c
      | _ \<Rightarrow> False)"

text \<open>The payloads among the chunks of standard output.\<close>

fun payloads :: "chunk list \<Rightarrow> string list" where
  "payloads [] = []"
| "payloads (Write s # cs) = s # payloads cs"
| "payloads (Print s # cs) = payloads cs"

text \<open>The entries of a state record that the engine does not own, in their order.\<close>

definition engine_keys :: "string set" where
  "engine_keys = {''phase'', ''status'', ''iteration''}"

definition foreign :: "dict \<Rightarrow> dict" where
  "foreign st = filter (\<lambda>kv. fst kv \<notin> engine_keys) st"

text \<open>The record that step 7 dumps when the transition leads to \<open>next_phase\<close>.\<close>

definition written :: "string \<Rightarrow> dict \<Rightarrow> dict" where
  "written next_phase st1 =
     setitem ''status'' (JStr ''ACTIVE'') (setitem ''phase'' (JStr next_phase) st1)"

text \<open>The two exceptions that the modulo and the indexing of the phase list can raise.\<close>

definition index_error :: "outcome \<Rightarrow> bool" where
  "index_error h \<longleftrightarrow> h = Raised ZeroDivisionError \<or> h = Raised IndexError"


section \<open>A sample project\<close>

text \<open>
  A config with three phases and a cleanup command, a state record with history and
  metrics, and a world that holds both; \<open>ok\<close> is the exit status of every command. The
  texts of the two files stand for whatever \<open>json_loads\<close> decodes to the two records.
\<close>

definition demo_config :: dict where
  "demo_config =
     [(''phases'', JList [JStr ''PLAN'', JStr ''BUILD'', JStr ''TEST'']),
      (''state_file'', JStr ''state.json''),
      (''prompts_dir'', JStr ''prompts''),
      (''cleanup_command'', JStr ''git checkout .'')]"

definition demo_state :: "string \<Rightarrow> string \<Rightarrow> int \<Rightarrow> dict" where
  "demo_state phase status n =
     [(''status'', JStr status), (''phase'', JStr phase), (''iteration'', JInt n),
      (''history'', JList [JStr ''started'']), (''metrics'', JObj [(''runs'', JInt 7)])]"

text \<open>
  The \<open>str_lower\<close> of the sample project, whose phase names are ASCII: the capital letters
  A to Z go to their small letters.
\<close>

definition ascii_lower :: "string \<Rightarrow> string" where
  "ascii_lower s =
     map (\<lambda>c. case map_of (zip ''ABCDEFGHIJKLMNOPQRSTUVWXYZ'' ''abcdefghijklmnopqrstuvwxyz'') c of
                None \<Rightarrow> c
              | Some l \<Rightarrow> l) s"

definition demo_world :: "dict \<Rightarrow> dict \<Rightarrow> bool \<Rightarrow> world" where
  "demo_world cfg st ok =
     \<lparr>environ = Map.empty,
      files = [CONFIG_PATH \<mapsto> ''config text'', ''state.json'' \<mapsto> ''state text''],
      no_file = (\<lambda>path. FileNotFoundError),
      json_loads = (\<lambda>text. if text = ''config text'' then Some (JObj cfg)
                           else if text = ''state text'' then Some (JObj st) else None),
      json_dumps = (\<lambda>indent v. ''dumped''),
      py_str = (\<lambda>v. ''?''),
      str_lower = ascii_lower,
      shell = (\<lambda>done c. ok)\<rparr>"

text \<open>A config that names the state file and has no phases.\<close>

definition bare_config :: dict where
  "bare_config = [(''state_file'', JStr ''state.json''), (''phases'', JList [])]"


text \<open>
  The sample project with a config file whose text is a lone opening brace, which no JSON
  decoder accepts.
\<close>

definition malformed_config_world :: world where
  "malformed_config_world =
     (demo_world demo_config (demo_state ''PLAN'' ''ACTIVE'' 1) True)
       \<lparr>files := [CONFIG_PATH \<mapsto> ''{'']\<rparr>"

section \<open>Dictionaries, indices and frames\<close>

lemma map_of_setitem: "map_of (setitem k v d) = (map_of d)(k \<mapsto> v)"
  by (induction d) (auto simp: fun_eq_iff)

lemma dict_get_setitem:
  "dict_get (setitem k v d) k' dflt = (if k' = k then v else dict_get d k' dflt)"
  by (simp add: dict_get_def map_of_setitem)

lemma foreign_setitem: "k \<in> engine_keys \<Longrightarrow> foreign (setitem k v d) = foreign d"
  by (induction d) (auto simp: foreign_def)

lemma strings_map_JStr: "strings (map JStr ps) = Some ps"
  by (induction ps) simp_all

lemma list_index_None: "v \<notin> JStr ` set ps \<Longrightarrow> list_index ps v = None"
  by (induction ps) auto

lemma list_index_nth:
  "distinct ps \<Longrightarrow> i < length ps \<Longrightarrow> list_index ps (JStr (ps ! i)) = Some i"
proof (induction ps arbitrary: i)
  case Nil
  then show ?case by simp
next
  case (Cons x xs)
  show ?case
  proof (cases i)
    case 0
    then show ?thesis by simp
  next
    case (Suc j)
    with Cons.prems have "x \<noteq> xs ! j" "j < length xs" "distinct xs" by auto
    with Cons.IH [of j] Suc show ?thesis by simp
  qed
qed

lemma list_index_bound: "list_index ps v = Some i \<Longrightarrow> i < length ps"
  by (induction ps arbitrary: i) (auto split: if_splits)

lemma check_status_trigger:
  "dict_get st ''status'' JNull = JStr ''COMPLETED'' \<or> dict_get st ''status'' JNull = JStr ''FAILED''
   \<Longrightarrow> check_status (JObj st) = Next (st, dict_get st ''status'' JNull)"
  by (auto simp: check_status_def Let_def)

lemma check_status_idle:
  "dict_get st ''status'' JNull \<noteq> JStr ''COMPLETED'' \<Longrightarrow> dict_get st ''status'' JNull \<noteq> JStr ''FAILED''
   \<Longrightarrow> check_status (JObj st) = Halt Returned"
  by (auto simp: check_status_def Let_def)

lemma main_trigger:
  assumes "loaded w cfg sf st"
    and "dict_get st ''status'' JNull = JStr ''COMPLETED'' \<or> dict_get st ''status'' JNull = JStr ''FAILED''"
  shows "main w = transition w cfg sf (prompts_dir cfg) st (dict_get st ''status'' JNull) (start w)"
  using assms(1) check_status_trigger [OF assms(2)]
  by (auto simp: loaded_def main_def load_configuration_def resolve_paths_def load_state_def
      prompts_dir_def Let_def split: option.splits)

lemma main_idle:
  assumes "loaded w cfg sf st"
    and "dict_get st ''status'' JNull \<noteq> JStr ''COMPLETED''"
    and "dict_get st ''status'' JNull \<noteq> JStr ''FAILED''"
  shows "main w = (Returned, start w)"
  using assms(1) check_status_idle [OF assms(2,3)]
  by (auto simp: loaded_def main_def load_configuration_def resolve_paths_def load_state_def
      Let_def split: option.splits)

lemma payloads_append: "payloads (xs @ ys) = payloads xs @ payloads ys"
  by (induction xs rule: payloads.induct) simp_all

lemma say_frame [simp]:
  "saved (say s p) = saved p" "disk (say s p) = disk p" "ran (say s p) = ran p"
  "payloads (out (say s p)) = payloads (out p)"
  by (simp_all add: say_def payloads_append)

lemma run_command_frame:
  assumes "run_command w c p = (r, p')"
  shows "saved p' = saved p \<and> disk p' = disk p \<and> payloads (out p') = payloads (out p)"
  using assms
  by (auto simp: run_command_def Let_def payloads_append split: if_splits json.splits)

lemma run_command_string:
  "run_command w (JStr c) p =
     (if c = [] then (Next True, p)
      else if shell w (ran p) c
      then (Next True, (say (''[Ralph Engine] Running: '' @ c) p)\<lparr>ran := ran p @ [c]\<rparr>)
      else (Next False, say (''[Ralph Engine] Command failed: '' @ c)
              ((say (''[Ralph Engine] Running: '' @ c) p)\<lparr>ran := ran p @ [c]\<rparr>)))"
  by (simp add: run_command_def Let_def fmt_def)

lemma py_nth_nat: "j < length xs \<Longrightarrow> py_nth xs (int j) = Inr (xs ! j)"
  by (simp add: py_nth_def)

lemma success_transition_at:
  assumes "i < length ps" and "dict_get st ''iteration'' (JInt 1) = JInt k"
  shows "success_transition st ps (int i) =
     Next (ps ! (Suc i mod length ps),
           if Suc i = length ps then setitem ''iteration'' (JInt (k + 1)) st else st)"
proof -
  from assms(1) have n: "length ps \<noteq> 0" by auto
  have idx: "(int i + 1) mod int (length ps) = int (Suc i mod length ps)"
    by (simp add: zmod_int add.commute)
  have lt: "Suc i mod length ps < length ps" using n by simp
  have wrap: "Suc i mod length ps = 0 \<longleftrightarrow> Suc i = length ps"
    using assms(1) by (metis Suc_lessI mod_less mod_self nat.distinct(1))
  show ?thesis
    using n assms(2) wrap
    by (simp add: success_transition_def py_mod_def idx py_nth_nat [OF lt])
qed

lemma success_transition_unknown:
  assumes "ps \<noteq> []" and "py_add1 (dict_get st ''iteration'' (JInt 1)) = Inr it"
  shows "success_transition st ps (- 1) = Next (ps ! 0, setitem ''iteration'' it st)"
proof -
  have "0 < length ps" using assms(1) by simp
  then show ?thesis
    using assms(2) by (simp add: success_transition_def py_mod_def py_nth_def)
qed

lemma determine_strings:
  assumes "dict_get cfg ''phases'' (JList []) = JList (map JStr ps)" and "ps \<noteq> []"
  shows "determine_transition w cfg st current_status p =
     (if current_status = JStr ''FAILED''
      then failure_recovery w cfg st ps (dict_get st ''phase'' JNull) p
      else (success_transition st ps
              (case list_index ps (dict_get st ''phase'' JNull) of None \<Rightarrow> - 1 | Some i \<Rightarrow> int i), p))"
  using assms by (simp add: determine_transition_def strings_map_JStr Let_def)

lemma pre_phase_frame:
  assumes "pre_phase w cfg np p = (r, p')"
  shows "saved p' = saved p \<and> disk p' = disk p \<and> payloads (out p') = payloads (out p)"
  using assms
  by (auto simp: pre_phase_def split: json.splits option.splits if_splits prod.splits step.splits
      dest: run_command_frame)

lemma is_command_lookup:
  "list_all is_command scripts \<Longrightarrow> map_of scripts k = Some v \<Longrightarrow> \<exists>c. v = JStr c"
  by (induction scripts) (auto split: if_splits elim: is_command.elims)

lemma pre_phase_typed:
  assumes "scripts_typed cfg"
  shows "fst (pre_phase w cfg np p) = Next ()"
proof (cases "map_of cfg ''phase_scripts''")
  case None
  then show ?thesis by (simp add: pre_phase_def dict_get_def)
next
  case (Some v)
  with assms obtain scripts where v: "v = JObj scripts" and all: "list_all is_command scripts"
    by (auto simp: scripts_typed_def split: json.splits)
  show ?thesis
  proof (cases "map_of scripts np")
    case None
    with Some v show ?thesis by (simp add: pre_phase_def dict_get_def)
  next
    case (Some s)
    with is_command_lookup [OF all Some] obtain c where "s = JStr c" by blast
    with Some \<open>map_of cfg ''phase_scripts'' = Some v\<close> v show ?thesis
      by (simp add: pre_phase_def dict_get_def run_command_string)
  qed
qed

lemma failure_recovery_frame:
  assumes "failure_recovery w cfg st ps cp p = (r, p')"
  shows "saved p' = saved p \<and> disk p' = disk p \<and> payloads (out p') = payloads (out p)"
proof (cases "truthy (dict_get cfg ''cleanup_command'' JNull)")
  case False
  with assms show ?thesis
    by (auto simp: failure_recovery_def Let_def split: sum.splits)
next
  case True
  obtain r1 p1 where rc: "run_command w (dict_get cfg ''cleanup_command'' JNull)
      (say (''[Ralph Engine] Phase '' @ fmt w cp @ '' FAILED. Initiating recovery...'') p) = (r1, p1)"
    by (cases "run_command w (dict_get cfg ''cleanup_command'' JNull)
      (say (''[Ralph Engine] Phase '' @ fmt w cp @ '' FAILED. Initiating recovery...'') p)")
  from run_command_frame [OF rc] assms True rc show ?thesis
    by (auto simp: failure_recovery_def Let_def split: sum.splits step.splits bool.splits)
qed

lemma failure_recovery_state:
  assumes "failure_recovery w cfg st ps cp p = (Next (np, st1), p')"
  shows "foreign st1 = foreign st"
proof -
  have "\<exists>it. st1 = setitem ''iteration'' it st"
    using assms
    by (auto simp: failure_recovery_def Let_def
        split: sum.splits step.splits bool.splits prod.splits if_splits)
  then show ?thesis by (auto simp: foreign_setitem engine_keys_def)
qed

lemma success_transition_state:
  assumes "success_transition st ps idx = Next (np, st1)"
  shows "foreign st1 = foreign st"
proof -
  have "st1 = st \<or> (\<exists>it. st1 = setitem ''iteration'' it st)"
    using assms by (auto simp: success_transition_def split: sum.splits if_splits)
  then show ?thesis by (auto simp: foreign_setitem engine_keys_def)
qed

lemma determine_frame:
  assumes "determine_transition w cfg st cs p = (r, p')"
  shows "saved p' = saved p \<and> disk p' = disk p \<and> payloads (out p') = payloads (out p)"
  using assms
  by (auto simp: determine_transition_def Let_def
      split: if_splits json.splits option.splits dest: failure_recovery_frame)

lemma determine_state:
  assumes "determine_transition w cfg st cs p = (Next (np, st1), p')"
  shows "foreign st1 = foreign st"
  using assms
  by (auto simp: determine_transition_def Let_def
      split: if_splits json.splits option.splits
      dest: failure_recovery_state success_transition_state)

section \<open>What a transition writes\<close>

lemma emit_frame [simp]:
  "saved (emit w r p) = saved p" "disk (emit w r p) = disk p"
  "payloads (out (emit w r p)) = payloads (out p) @ [json_dumps w None r]"
  by (simp_all add: emit_def payloads_append)

lemma transition_persists:
  assumes det: "determine_transition w cfg st cs p = (Next (np, st1), p1)"
    and pre: "fst (pre_phase w cfg np p1) = Next ()"
  shows "saved (snd (transition w cfg sf pd st cs p)) = saved p @ [(sf, JObj (written np st1))]"
    and "disk (snd (transition w cfg sf pd st cs p)) =
           (disk p)(sf \<mapsto> json_dumps w (Some 2) (JObj (written np st1)))"
proof -
  obtain p2 where p2: "pre_phase w cfg np p1 = (Next (), p2)"
    using pre by (cases "pre_phase w cfg np p1") auto
  from determine_frame [OF det] pre_phase_frame [OF p2]
  have fr: "saved p2 = saved p" "disk p2 = disk p" by simp_all
  show "saved (snd (transition w cfg sf pd st cs p)) = saved p @ [(sf, JObj (written np st1))]"
    using det p2 fr
    by (simp add: transition_def update_state_def Let_def written_def split: step.splits)
  show "disk (snd (transition w cfg sf pd st cs p)) =
           (disk p)(sf \<mapsto> json_dumps w (Some 2) (JObj (written np st1)))"
    using det p2 fr
    by (simp add: transition_def update_state_def Let_def written_def split: step.splits)
qed


lemma transition_saved:
  assumes "(path, doc) \<in> set (saved (snd (transition w cfg sf pd st cs p)))"
    and "saved p = []"
  shows "path = sf \<and> (\<exists>st'. doc = JObj st' \<and> foreign st' = foreign st
           \<and> disk (snd (transition w cfg sf pd st cs p)) sf = Some (json_dumps w (Some 2) doc))"
proof (cases "determine_transition w cfg st cs p")
  case (Pair r p1)
  show ?thesis
  proof (cases r)
    case (Halt h)
    with Pair determine_frame [OF Pair] assms show ?thesis
      by (simp add: transition_def)
  next
    case (Next a)
    obtain np st1 where a: "a = (np, st1)" by (cases a)
    have det: "determine_transition w cfg st cs p = (Next (np, st1), p1)"
      using Pair Next a by simp
    obtain r2 p2 where p2: "pre_phase w cfg np p1 = (r2, p2)" by (cases "pre_phase w cfg np p1")
    show ?thesis
    proof (cases r2)
      case (Halt h)
      with det p2 determine_frame [OF det] pre_phase_frame [OF p2] assms show ?thesis
        by (simp add: transition_def)
    next
      case (Next u)
      then have pre: "fst (pre_phase w cfg np p1) = Next ()" using p2 by simp
      have "foreign (written np st1) = foreign st"
        using determine_state [OF det]
        by (simp add: written_def foreign_setitem engine_keys_def)
      with transition_persists [OF det pre, of sf pd] assms show ?thesis
        by auto
    qed
  qed
qed

lemma written_lookup:
  "map_of (written np st1) ''phase'' = Some (JStr np)"
  "map_of (written np st1) ''status'' = Some (JStr ''ACTIVE'')"
  "map_of (written np st1) ''iteration'' = map_of st1 ''iteration''"
  by (simp_all add: written_def map_of_setitem)

lemma start_simps [simp]:
  "out (start w) = []" "ran (start w) = []" "disk (start w) = files w" "saved (start w) = []"
  by (simp_all add: start_def)

lemma map_of_foreign: "k \<notin> engine_keys \<Longrightarrow> map_of (foreign d) k = map_of d k"
  by (induction d) (auto simp: foreign_def)

lemma failure_recovery_ok:
  assumes "cleanup_succeeds w cfg" and "ran p = []" and "ps \<noteq> []"
    and "dict_get st ''iteration'' (JInt 1) = JInt k"
  shows "\<exists>p'. failure_recovery w cfg st ps cp p =
           (Next (ps ! 0, setitem ''iteration'' (JInt (k + 1)) st), p')"
proof -
  have nth: "py_nth ps 0 = Inr (ps ! 0)"
    using assms(3) by (simp add: py_nth_def)
  show ?thesis
  proof (cases "truthy (dict_get cfg ''cleanup_command'' JNull)")
    case False
    then show ?thesis
      using assms(4) nth by (simp add: failure_recovery_def Let_def)
  next
    case True
    with assms(1) obtain c where c: "dict_get cfg ''cleanup_command'' JNull = JStr c"
      "c \<noteq> []" "shell w [] c"
      by (auto simp: cleanup_succeeds_def split: json.splits)
    then show ?thesis
      using assms(2,4) nth by (simp add: failure_recovery_def Let_def run_command_string)
  qed
qed

lemma failure_recovery_abort:
  assumes "cleanup_fails w cfg" and "ran p = []"
  shows "\<exists>p'. failure_recovery w cfg st ps cp p = (Halt Returned, p')"
proof -
  from assms(1) obtain c where c: "dict_get cfg ''cleanup_command'' JNull = JStr c"
    "c \<noteq> []" "\<not> shell w [] c"
    by (auto simp: cleanup_fails_def split: json.splits)
  then show ?thesis
    using assms(2) by (simp add: failure_recovery_def Let_def run_command_string)
qed

lemma success_transition_total:
  assumes "ps \<noteq> []" and "dict_get st ''iteration'' (JInt 1) = JInt k"
  shows "\<exists>np st1. success_transition st ps
            (case list_index ps v of None \<Rightarrow> - 1 | Some i \<Rightarrow> int i) = Next (np, st1)
          \<and> np \<in> set ps"
proof (cases "list_index ps v")
  case None
  have "py_add1 (dict_get st ''iteration'' (JInt 1)) = Inr (JInt (k + 1))"
    using assms(2) by simp
  from success_transition_unknown [OF assms(1) this] None assms(1) show ?thesis
    by simp
next
  case (Some i)
  then have i: "i < length ps" by (rule list_index_bound)
  have "0 < length ps" using assms(1) by simp
  then have "Suc i mod length ps < length ps" by (rule mod_less_divisor)
  with success_transition_at [OF i assms(2)] Some show ?thesis
    by simp
qed

lemma demo_loaded: "loaded (demo_world demo_config st ok) demo_config ''state.json'' st"
  by (simp add: loaded_def demo_world_def demo_config_def dict_get_def CONFIG_PATH_def
      path_join_def)

lemma bare_loaded: "loaded (demo_world bare_config st ok) bare_config ''state.json'' st"
  by (simp add: loaded_def demo_world_def bare_config_def dict_get_def CONFIG_PATH_def
      path_join_def)


lemma demo_status: "dict_get (demo_state phase status n) ''status'' JNull = JStr status"
  by (simp add: demo_state_def dict_get_def)

lemma demo_phase: "dict_get (demo_state phase status n) ''phase'' JNull = JStr phase"
  by (simp add: demo_state_def dict_get_def)

lemma demo_iteration: "dict_get (demo_state phase status n) ''iteration'' (JInt 1) = JInt n"
  by (simp add: demo_state_def dict_get_def)

lemma demo_phases:
  "dict_get demo_config ''phases'' (JList []) = JList (map JStr [''PLAN'', ''BUILD'', ''TEST''])"
  by (simp add: demo_config_def dict_get_def)

lemma demo_scripts: "scripts_typed demo_config"
  by (simp add: demo_config_def scripts_typed_def)

lemma demo_cleanup:
  "cleanup_succeeds (demo_world demo_config st True) demo_config"
  "cleanup_fails (demo_world demo_config st False) demo_config"
  by (simp_all add: cleanup_succeeds_def cleanup_fails_def demo_world_def demo_config_def
      dict_get_def)


lemma demo_saved:
  "saved (snd (main (demo_world demo_config (demo_state ''TEST'' ''COMPLETED'' 3) True)))
     = [(''state.json'',
         JObj [(''status'', JStr ''ACTIVE''), (''phase'', JStr ''PLAN''), (''iteration'', JInt 4),
               (''history'', JList [JStr ''started'']), (''metrics'', JObj [(''runs'', JInt 7)])])]"
proof -
  let ?w = "demo_world demo_config (demo_state ''TEST'' ''COMPLETED'' 3) True"
  have m: "main ?w = transition ?w demo_config ''state.json'' (prompts_dir demo_config)
      (demo_state ''TEST'' ''COMPLETED'' 3) (JStr ''COMPLETED'') (start ?w)"
    using main_trigger [OF demo_loaded, of "demo_state ''TEST'' ''COMPLETED'' 3" True]
    by (simp add: demo_status)
  have det: "determine_transition ?w demo_config (demo_state ''TEST'' ''COMPLETED'' 3)
      (JStr ''COMPLETED'') (start ?w)
      = (Next (''PLAN'', setitem ''iteration'' (JInt 4) (demo_state ''TEST'' ''COMPLETED'' 3)),
         start ?w)"
    using determine_strings [OF demo_phases, of ?w "demo_state ''TEST'' ''COMPLETED'' 3"
        "JStr ''COMPLETED''" "start ?w"]
      success_transition_at [of 2 "[''PLAN'', ''BUILD'', ''TEST'']"
        "demo_state ''TEST'' ''COMPLETED'' 3" 3]
    by (simp add: demo_phase demo_iteration)
  have pre: "fst (pre_phase ?w demo_config ''PLAN'' (start ?w)) = Next ()"
    by (rule pre_phase_typed [OF demo_scripts])
  have "saved (snd (main ?w)) = [(''state.json'',
      JObj (written ''PLAN''
        (setitem ''iteration'' (JInt 4) (demo_state ''TEST'' ''COMPLETED'' 3))))]"
    using transition_persists(1) [OF det pre, of "''state.json''" "prompts_dir demo_config"]
    by (simp add: m)
  then show ?thesis
    by (simp add: written_def demo_state_def)
qed


lemma determine_next:
  assumes "dict_get st ''status'' JNull = JStr ''COMPLETED''
       \<or> dict_get st ''status'' JNull = JStr ''FAILED'' \<and> cleanup_succeeds w cfg"
    and "dict_get cfg ''phases'' (JList []) = JList (map JStr phases)"
    and "phases \<noteq> []"
    and "dict_get st ''iteration'' (JInt 1) = JInt k"
  shows "\<exists>np st1 p1. determine_transition w cfg st (dict_get st ''status'' JNull) (start w)
            = (Next (np, st1), p1) \<and> np \<in> set phases"
  using assms(1)
proof
  assume c: "dict_get st ''status'' JNull = JStr ''COMPLETED''"
  from success_transition_total [OF assms(3,4), of "dict_get st ''phase'' JNull"]
  show ?thesis
    using determine_strings [OF assms(2,3), of w st "JStr ''COMPLETED''" "start w"] c
    by auto
next
  assume f: "dict_get st ''status'' JNull = JStr ''FAILED'' \<and> cleanup_succeeds w cfg"
  from failure_recovery_ok [OF _ _ assms(3,4), of w cfg "start w" "dict_get st ''phase'' JNull"] f
  obtain p1 where "failure_recovery w cfg st phases (dict_get st ''phase'' JNull) (start w)
      = (Next (phases ! 0, setitem ''iteration'' (JInt (k + 1)) st), p1)"
    by auto
  moreover have "phases ! 0 \<in> set phases" using assms(3) by simp
  ultimately show ?thesis
    using determine_strings [OF assms(2,3), of w st "JStr ''FAILED''" "start w"] f
    by auto
qed

lemma environ_irrelevant_fmt: "fmt (w\<lparr>environ := e\<rparr>) v = fmt w v"
  by (simp add: fmt_def cong: json.case_cong)

lemma environ_irrelevant_run_command:
  "run_command (w\<lparr>environ := e\<rparr>) c p = run_command w c p"
  by (simp add: run_command_def environ_irrelevant_fmt cong: json.case_cong if_cong)

lemma environ_irrelevant_determine:
  "determine_transition (w\<lparr>environ := e\<rparr>) cfg st cs p = determine_transition w cfg st cs p"
  by (simp add: determine_transition_def failure_recovery_def environ_irrelevant_fmt
      environ_irrelevant_run_command
      cong: json.case_cong option.case_cong if_cong)

lemma environ_irrelevant_pre_phase:
  "pre_phase (w\<lparr>environ := e\<rparr>) cfg np p = pre_phase w cfg np p"
  by (simp add: pre_phase_def environ_irrelevant_run_command
      cong: json.case_cong option.case_cong)

lemma environ_irrelevant_output:
  "update_state (w\<lparr>environ := e\<rparr>) sf st np p = update_state w sf st np p"
  "load_prompt (w\<lparr>environ := e\<rparr>) pd np p = load_prompt w pd np p"
  "response (w\<lparr>environ := e\<rparr>) np text st = response w np text st"
  "emit (w\<lparr>environ := e\<rparr>) r p = emit w r p"
  by (simp_all add: update_state_def load_prompt_def response_def emit_def
      environ_irrelevant_fmt Let_def cong: json.case_cong option.case_cong)

lemma environ_irrelevant_transition:
  "transition (w\<lparr>environ := e\<rparr>) cfg sf pd st cs p = transition w cfg sf pd st cs p"
  by (simp add: transition_def environ_irrelevant_determine environ_irrelevant_pre_phase
      environ_irrelevant_output
      cong: prod.case_cong step.case_cong)

lemma absent_config_is_noop:
  "files w CONFIG_PATH = None \<Longrightarrow> no_file w CONFIG_PATH = FileNotFoundError
   \<Longrightarrow> main w = (Returned, start w)"
  by (simp add: main_def load_configuration_def)

section \<open>The phase list is never indexed out of range\<close>

lemma strings_length: "strings xs = Some ps \<Longrightarrow> length ps = length xs"
proof (induction xs arbitrary: ps rule: strings.induct)
  case 1
  then show ?case by simp
next
  case (2 s vs)
  then show ?case by (cases "strings vs") auto
qed simp_all

lemma success_transition_in_range:
  assumes "ps \<noteq> []" and "- 1 \<le> idx"
  shows "success_transition st ps idx \<noteq> Halt (Raised ZeroDivisionError)"
    and "success_transition st ps idx \<noteq> Halt (Raised IndexError)"
proof -
  have n: "0 < int (length ps)" using assms(1) by simp
  have lo: "0 \<le> (idx + 1) mod int (length ps)" using n by simp
  have hi: "(idx + 1) mod int (length ps) < int (length ps)" using n by simp
  have nth: "py_nth ps ((idx + 1) mod int (length ps))
      = Inr (ps ! nat ((idx + 1) mod int (length ps)))"
    using lo hi by (simp add: py_nth_def)
  have add: "py_add1 v \<noteq> Inl ZeroDivisionError" "py_add1 v \<noteq> Inl IndexError" for v
    by (cases v; simp)+
  show "success_transition st ps idx \<noteq> Halt (Raised ZeroDivisionError)"
    using n nth add [of "dict_get st ''iteration'' (JInt 1)"]
    by (auto simp: success_transition_def py_mod_def split: sum.splits)
  show "success_transition st ps idx \<noteq> Halt (Raised IndexError)"
    using n nth add [of "dict_get st ''iteration'' (JInt 1)"]
    by (auto simp: success_transition_def py_mod_def split: sum.splits)
qed

lemma run_command_outcome:
  "run_command w c p = (Halt h, p') \<Longrightarrow> h = Unmodelled"
  by (auto simp: run_command_def Let_def split: if_splits json.splits)

lemma failure_recovery_in_range:
  assumes "ps \<noteq> []" and "failure_recovery w cfg st ps cp p = (Halt h, p')"
  shows "\<not> index_error h"
proof -
  have nth: "py_nth ps 0 = Inr (ps ! 0)" using assms(1) by (simp add: py_nth_def)
  have add: "py_add1 v = Inl e \<Longrightarrow> e = TypeError" for v e
    by (cases v) auto
  show ?thesis
    using assms(2) nth
    by (auto simp: failure_recovery_def Let_def index_error_def
        split: if_splits prod.splits step.splits bool.splits sum.splits
        dest: run_command_outcome add)
qed

lemma determine_in_range:
  assumes "determine_transition w cfg st cs p = (Halt h, p')"
  shows "\<not> index_error h"
proof (cases "dict_get cfg ''phases'' (JList [])")
  case (JList xs)
  show ?thesis
  proof (cases "strings xs")
    case None
    with JList assms show ?thesis
      by (auto simp: determine_transition_def Let_def index_error_def split: if_splits)
  next
    case (Some ps)
    show ?thesis
    proof (cases "xs = []")
      case True
      with JList assms show ?thesis
        by (auto simp: determine_transition_def Let_def index_error_def)
    next
      case False
      with strings_length [OF Some] have ne: "ps \<noteq> []" by auto
      have idx: "- 1 \<le> (case list_index ps v of None \<Rightarrow> - 1 | Some i \<Rightarrow> int i)" for v
        by (cases "list_index ps v") auto
      show ?thesis
        using assms JList Some False failure_recovery_in_range [OF ne]
          success_transition_in_range [OF ne idx]
        by (auto simp: determine_transition_def Let_def index_error_def split: if_splits)
    qed
  qed
qed (use assms in \<open>auto simp: determine_transition_def Let_def index_error_def split: if_splits\<close>)

lemma pre_phase_outcome:
  "pre_phase w cfg np p = (Halt h, p') \<Longrightarrow> \<not> index_error h"
  by (auto simp: pre_phase_def index_error_def
      split: json.splits option.splits if_splits prod.splits step.splits
      dest: run_command_outcome)

lemma transition_in_range: "\<not> index_error (fst (transition w cfg sf pd st cs p))"
proof (cases "determine_transition w cfg st cs p")
  case (Pair r p1)
  show ?thesis
  proof (cases r)
    case (Halt h)
    with Pair determine_in_range [of w cfg st cs p h p1] show ?thesis
      by (simp add: transition_def)
  next
    case (Next a)
    obtain np st1 where a: "a = (np, st1)" by (cases a)
    obtain r2 p2 where p2: "pre_phase w cfg np p1 = (r2, p2)" by (cases "pre_phase w cfg np p1")
    show ?thesis
      using Pair Next a p2 pre_phase_outcome [of w cfg np p1 _ p2]
      by (cases r2)
        (auto simp: transition_def update_state_def load_prompt_def Let_def index_error_def
          split: json.splits option.splits open_error.splits)
  qed
qed

lemma main_in_range: "\<not> index_error (fst (main w))"
  using transition_in_range
  by (auto simp: main_def load_configuration_def resolve_paths_def load_state_def
      check_status_def Let_def index_error_def
      split: option.splits json.splits if_splits open_error.splits)

section \<open>The success transition\<close>

text \<open>
  Claim C1. Let the config hold \<open>n\<close> phases (distinct strings, as the data model has them)
  and let the loaded state have status \<open>COMPLETED\<close>, the phase at index \<open>i\<close> and an integer
  iteration \<open>k\<close> (1 when the key is absent). Then one invocation dumps exactly one record, to
  the state file; in it the phase is the one at index \<open>(i + 1) mod n\<close>, the status is
  \<open>ACTIVE\<close>, and the iteration is \<open>k + 1\<close> if \<open>i = n - 1\<close> and is left as it was otherwise.
\<close>

theorem completed_advances_cyclically:
  assumes "loaded w cfg sf st"
    and "dict_get st ''status'' JNull = JStr ''COMPLETED''"
    and "dict_get cfg ''phases'' (JList []) = JList (map JStr phases)"
    and "distinct phases" and "i < length phases"
    and "dict_get st ''phase'' JNull = JStr (phases ! i)"
    and "dict_get st ''iteration'' (JInt 1) = JInt k"
    and "scripts_typed cfg"
  shows "\<exists>st'. saved (snd (main w)) = [(sf, JObj st')]
      \<and> disk (snd (main w)) sf = Some (json_dumps w (Some 2) (JObj st'))
      \<and> map_of st' ''phase'' = Some (JStr (phases ! (Suc i mod length phases)))
      \<and> map_of st' ''status'' = Some (JStr ''ACTIVE'')
      \<and> map_of st' ''iteration'' =
          (if Suc i = length phases then Some (JInt (k + 1)) else map_of st ''iteration'')"
proof -
  let ?np = "phases ! (Suc i mod length phases)"
  let ?st1 = "if Suc i = length phases then setitem ''iteration'' (JInt (k + 1)) st else st"
  have ne: "phases \<noteq> []" using assms(5) by auto
  have m: "main w = transition w cfg sf (prompts_dir cfg) st (JStr ''COMPLETED'') (start w)"
    using main_trigger [OF assms(1)] assms(2) by simp
  have det: "determine_transition w cfg st (JStr ''COMPLETED'') (start w)
      = (Next (?np, ?st1), start w)"
    using determine_strings [OF assms(3) ne] list_index_nth [OF assms(4,5)] assms(6)
      success_transition_at [OF assms(5,7)]
    by simp
  have pre: "fst (pre_phase w cfg ?np (start w)) = Next ()"
    by (rule pre_phase_typed [OF assms(8)])
  have it: "map_of (written ?np ?st1) ''iteration'' =
      (if Suc i = length phases then Some (JInt (k + 1)) else map_of st ''iteration'')"
    by (simp add: written_lookup map_of_setitem)
  show ?thesis
    using transition_persists [OF det pre, of sf "prompts_dir cfg"] it
    by (intro exI [of _ "written ?np ?st1"]) (simp add: m written_lookup)
qed

theorem completed_advances_cyclically_witness:
  "\<exists>st'. saved (snd (main (demo_world demo_config (demo_state ''TEST'' ''COMPLETED'' 3) True)))
            = [(''state.json'', JObj st')]
      \<and> map_of st' ''phase'' = Some (JStr ''PLAN'')
      \<and> map_of st' ''status'' = Some (JStr ''ACTIVE'')
      \<and> map_of st' ''iteration'' = Some (JInt 4)"
proof -
  let ?st = "demo_state ''TEST'' ''COMPLETED'' 3"
  let ?ps = "[''PLAN'', ''BUILD'', ''TEST'']"
  have h2: "dict_get ?st ''status'' JNull = JStr ''COMPLETED''"
    by (simp add: demo_state_def dict_get_def)
  have h3: "dict_get demo_config ''phases'' (JList []) = JList (map JStr ?ps)"
    by (simp add: demo_config_def dict_get_def)
  have h4: "distinct ?ps" by simp
  have h5: "(2::nat) < length ?ps" by simp
  have h6: "dict_get ?st ''phase'' JNull = JStr (?ps ! 2)"
    by (simp add: demo_state_def dict_get_def)
  have h7: "dict_get ?st ''iteration'' (JInt 1) = JInt 3"
    by (simp add: demo_state_def dict_get_def)
  have h8: "scripts_typed demo_config"
    by (simp add: demo_config_def scripts_typed_def)
  from completed_advances_cyclically [OF demo_loaded h2 h3 h4 h5 h6 h7 h8, of True]
  show ?thesis by auto
qed

section \<open>The failure transition\<close>

text \<open>
  Claim C2. Let the loaded state have status \<open>FAILED\<close> and an integer iteration \<open>k\<close>
  (1 when the key is absent), whatever its phase is, and let the cleanup command be absent
  or exit with success. Then one invocation dumps exactly one record, to the state file; in
  it the phase is the first configured phase, the status is \<open>ACTIVE\<close> and the iteration is
  \<open>k + 1\<close>.
\<close>

theorem failure_resets_to_first_phase:
  assumes "loaded w cfg sf st"
    and "dict_get st ''status'' JNull = JStr ''FAILED''"
    and "dict_get cfg ''phases'' (JList []) = JList (map JStr phases)"
    and "phases \<noteq> []"
    and "cleanup_succeeds w cfg"
    and "dict_get st ''iteration'' (JInt 1) = JInt k"
    and "scripts_typed cfg"
  shows "\<exists>st'. saved (snd (main w)) = [(sf, JObj st')]
      \<and> disk (snd (main w)) sf = Some (json_dumps w (Some 2) (JObj st'))
      \<and> map_of st' ''phase'' = Some (JStr (phases ! 0))
      \<and> map_of st' ''status'' = Some (JStr ''ACTIVE'')
      \<and> map_of st' ''iteration'' = Some (JInt (k + 1))"
proof -
  let ?st1 = "setitem ''iteration'' (JInt (k + 1)) st"
  have m: "main w = transition w cfg sf (prompts_dir cfg) st (JStr ''FAILED'') (start w)"
    using main_trigger [OF assms(1)] assms(2) by simp
  obtain p1 where det: "determine_transition w cfg st (JStr ''FAILED'') (start w)
      = (Next (phases ! 0, ?st1), p1)"
    using determine_strings [OF assms(3,4), of w st "JStr ''FAILED''" "start w"]
      failure_recovery_ok [OF assms(5) _ assms(4,6), of "start w" "dict_get st ''phase'' JNull"]
    by auto
  have pre: "fst (pre_phase w cfg (phases ! 0) p1) = Next ()"
    by (rule pre_phase_typed [OF assms(7)])
  show ?thesis
    using transition_persists [OF det pre, of sf "prompts_dir cfg"]
    by (intro exI [of _ "written (phases ! 0) ?st1"])
      (simp add: m written_lookup map_of_setitem)
qed

theorem failure_resets_to_first_phase_witness:
  "\<exists>st'. saved (snd (main (demo_world demo_config (demo_state ''BUILD'' ''FAILED'' 2) True)))
            = [(''state.json'', JObj st')]
      \<and> map_of st' ''phase'' = Some (JStr ''PLAN'')
      \<and> map_of st' ''status'' = Some (JStr ''ACTIVE'')
      \<and> map_of st' ''iteration'' = Some (JInt 3)"
proof -
  have ne: "[''PLAN'', ''BUILD'', ''TEST''] \<noteq> []" by simp
  from failure_resets_to_first_phase
    [OF demo_loaded [of "demo_state ''BUILD'' ''FAILED'' 2" True] demo_status demo_phases ne
      demo_cleanup(1) demo_iteration demo_scripts]
  show ?thesis by auto
qed

text \<open>
  Claim C3. Let the loaded state have status \<open>FAILED\<close> and let the cleanup command be
  present and exit with failure. Then the invocation returns without dumping a record:
  every file is as it was before, and no payload is written to standard output.
\<close>

theorem cleanup_failure_aborts:
  assumes "loaded w cfg sf st"
    and "dict_get st ''status'' JNull = JStr ''FAILED''"
    and "dict_get cfg ''phases'' (JList []) = JList (map JStr phases)"
    and "phases \<noteq> []"
    and "cleanup_fails w cfg"
  shows "fst (main w) = Returned
      \<and> saved (snd (main w)) = []
      \<and> disk (snd (main w)) = files w
      \<and> payloads (out (snd (main w))) = []"
proof -
  have m: "main w = transition w cfg sf (prompts_dir cfg) st (JStr ''FAILED'') (start w)"
    using main_trigger [OF assms(1)] assms(2) by simp
  obtain p1 where det: "determine_transition w cfg st (JStr ''FAILED'') (start w)
      = (Halt Returned, p1)"
    using determine_strings [OF assms(3,4), of w st "JStr ''FAILED''" "start w"]
      failure_recovery_abort [OF assms(5), of "start w" st phases "dict_get st ''phase'' JNull"]
    by auto
  from determine_frame [OF det] det show ?thesis
    by (simp add: m transition_def)
qed

theorem cleanup_failure_aborts_witness:
  "fst (main (demo_world demo_config (demo_state ''BUILD'' ''FAILED'' 2) False)) = Returned
   \<and> saved (snd (main (demo_world demo_config (demo_state ''BUILD'' ''FAILED'' 2) False))) = []
   \<and> disk (snd (main (demo_world demo_config (demo_state ''BUILD'' ''FAILED'' 2) False)))
       = files (demo_world demo_config (demo_state ''BUILD'' ''FAILED'' 2) False)
   \<and> payloads (out (snd (main (demo_world demo_config (demo_state ''BUILD'' ''FAILED'' 2) False))))
       = []"
proof -
  have ne: "[''PLAN'', ''BUILD'', ''TEST''] \<noteq> []" by simp
  show ?thesis
    by (rule cleanup_failure_aborts
        [OF demo_loaded [of "demo_state ''BUILD'' ''FAILED'' 2" False] demo_status demo_phases ne
          demo_cleanup(2)])
qed

section \<open>Invocations that do nothing\<close>

text \<open>
  Claim C5. Let the loaded state have a status other than \<open>COMPLETED\<close> and \<open>FAILED\<close>. Then
  the invocation returns with no output, no command run and no file written, and a second
  invocation on the files it leaves does the same.
\<close>

theorem idle_status_is_noop:
  assumes "loaded w cfg sf st"
    and "dict_get st ''status'' JNull \<noteq> JStr ''COMPLETED''"
    and "dict_get st ''status'' JNull \<noteq> JStr ''FAILED''"
  shows "main w = (Returned, \<lparr>out = [], ran = [], disk = files w, saved = []\<rparr>)
      \<and> main (w\<lparr>files := disk (snd (main w))\<rparr>) = main w"
proof -
  have m: "main w = (Returned, \<lparr>out = [], ran = [], disk = files w, saved = []\<rparr>)"
    using main_idle [OF assms] by (simp add: start_def)
  then have "w\<lparr>files := disk (snd (main w))\<rparr> = w" by simp
  with m show ?thesis by simp
qed

theorem idle_status_is_noop_witness:
  "main (demo_world demo_config (demo_state ''BUILD'' ''ACTIVE'' 2) True)
     = (Returned, \<lparr>out = [], ran = [], disk =
          files (demo_world demo_config (demo_state ''BUILD'' ''ACTIVE'' 2) True), saved = []\<rparr>)"
proof -
  have a: "dict_get (demo_state ''BUILD'' ''ACTIVE'' 2) ''status'' JNull \<noteq> JStr ''COMPLETED''"
    and b: "dict_get (demo_state ''BUILD'' ''ACTIVE'' 2) ''status'' JNull \<noteq> JStr ''FAILED''"
    by (simp_all add: demo_status)
  from idle_status_is_noop [OF demo_loaded a b] show ?thesis by simp
qed

text \<open>
  Claim C10. Let the phases of the loaded config be the empty list (or absent) and the status
  be \<open>COMPLETED\<close> or \<open>FAILED\<close>. Then the invocation prints the error and returns: nothing
  else is printed, no command is run and no file is written. The modulo and the indexing of
  the phase list fail in no invocation \<open>v\<close> at all.
\<close>

theorem empty_phases_is_guarded:
  assumes "loaded w cfg sf st"
    and "dict_get st ''status'' JNull = JStr ''COMPLETED''
       \<or> dict_get st ''status'' JNull = JStr ''FAILED''"
    and "dict_get cfg ''phases'' (JList []) = JList []"
  shows "main w =
     (Returned,
      \<lparr>out = [Print ''[Ralph Engine] Error: No phases defined in .gemini/ralph/config.json''],
       ran = [], disk = files w, saved = []\<rparr>)
     \<and> \<not> index_error (fst (main v))"
proof -
  have "main w =
     (Returned,
      \<lparr>out = [Print ''[Ralph Engine] Error: No phases defined in .gemini/ralph/config.json''],
       ran = [], disk = files w, saved = []\<rparr>)"
    using main_trigger [OF assms(1,2)] assms(3)
    by (simp add: transition_def determine_transition_def say_def start_def)
  with main_in_range [of v] show ?thesis by simp
qed

theorem empty_phases_is_guarded_witness:
  "main (demo_world bare_config (demo_state ''PLAN'' ''COMPLETED'' 1) True) =
     (Returned,
      \<lparr>out = [Print ''[Ralph Engine] Error: No phases defined in .gemini/ralph/config.json''],
       ran = [],
       disk = files (demo_world bare_config (demo_state ''PLAN'' ''COMPLETED'' 1) True),
       saved = []\<rparr>)
   \<and> \<not> index_error (fst (main malformed_config_world))"
proof -
  have st: "dict_get (demo_state ''PLAN'' ''COMPLETED'' 1) ''status'' JNull = JStr ''COMPLETED''
      \<or> dict_get (demo_state ''PLAN'' ''COMPLETED'' 1) ''status'' JNull = JStr ''FAILED''"
    by (simp add: demo_status)
  have ps: "dict_get bare_config ''phases'' (JList []) = JList []"
    by (simp add: bare_config_def dict_get_def)
  show ?thesis
    by (rule empty_phases_is_guarded [OF bare_loaded st ps])
qed

section \<open>Unknown phases, foreign entries, missing prompts\<close>

text \<open>
  Claim C6. Let the loaded state have status \<open>COMPLETED\<close> and a phase that is not among the
  configured phases. Then the search for the phase fails (the index is the fallback -1),
  and the record dumped to the state file has the first configured phase.
\<close>

theorem unknown_phase_restarts:
  assumes "loaded w cfg sf st"
    and "dict_get st ''status'' JNull = JStr ''COMPLETED''"
    and "dict_get cfg ''phases'' (JList []) = JList (map JStr phases)"
    and "phases \<noteq> []"
    and "dict_get st ''phase'' JNull \<notin> JStr ` set phases"
    and "dict_get st ''iteration'' (JInt 1) = JInt k"
    and "scripts_typed cfg"
  shows "list_index phases (dict_get st ''phase'' JNull) = None
      \<and> (\<exists>st'. saved (snd (main w)) = [(sf, JObj st')]
            \<and> disk (snd (main w)) sf = Some (json_dumps w (Some 2) (JObj st'))
            \<and> map_of st' ''phase'' = Some (JStr (phases ! 0))
            \<and> map_of st' ''status'' = Some (JStr ''ACTIVE''))"
proof -
  let ?st1 = "setitem ''iteration'' (JInt (k + 1)) st"
  have idx: "list_index phases (dict_get st ''phase'' JNull) = None"
    by (rule list_index_None [OF assms(5)])
  have m: "main w = transition w cfg sf (prompts_dir cfg) st (JStr ''COMPLETED'') (start w)"
    using main_trigger [OF assms(1)] assms(2) by simp
  have add: "py_add1 (dict_get st ''iteration'' (JInt 1)) = Inr (JInt (k + 1))"
    using assms(6) by simp
  have det: "determine_transition w cfg st (JStr ''COMPLETED'') (start w)
      = (Next (phases ! 0, ?st1), start w)"
    using determine_strings [OF assms(3,4)] idx success_transition_unknown [OF assms(4) add]
    by simp
  have pre: "fst (pre_phase w cfg (phases ! 0) (start w)) = Next ()"
    by (rule pre_phase_typed [OF assms(7)])
  have "\<exists>st'. saved (snd (main w)) = [(sf, JObj st')]
            \<and> disk (snd (main w)) sf = Some (json_dumps w (Some 2) (JObj st'))
            \<and> map_of st' ''phase'' = Some (JStr (phases ! 0))
            \<and> map_of st' ''status'' = Some (JStr ''ACTIVE'')"
    using transition_persists [OF det pre, of sf "prompts_dir cfg"]
    by (intro exI [of _ "written (phases ! 0) ?st1"]) (simp add: m written_lookup)
  with idx show ?thesis by simp
qed

theorem unknown_phase_restarts_witness:
  "\<exists>st'. saved (snd (main (demo_world demo_config (demo_state ''UNKNOWN'' ''COMPLETED'' 1) True)))
            = [(''state.json'', JObj st')]
      \<and> map_of st' ''phase'' = Some (JStr ''PLAN'')"
proof -
  have ne: "[''PLAN'', ''BUILD'', ''TEST''] \<noteq> []" by simp
  have un: "dict_get (demo_state ''UNKNOWN'' ''COMPLETED'' 1) ''phase'' JNull
      \<notin> JStr ` set [''PLAN'', ''BUILD'', ''TEST'']"
    by (simp add: demo_phase)
  from unknown_phase_restarts
    [OF demo_loaded [of "demo_state ''UNKNOWN'' ''COMPLETED'' 1" True] demo_status demo_phases ne
      un demo_iteration demo_scripts]
  show ?thesis by auto
qed

text \<open>
  Claim C7. Every record that an invocation dumps goes to the state file, and its entries
  under keys other than \<open>phase\<close>, \<open>status\<close> and \<open>iteration\<close> are those of the loaded record,
  in the same order and with the same values; the state file then holds its dump.
\<close>

theorem transition_keeps_foreign_entries:
  assumes "loaded w cfg sf st"
    and "(path, doc) \<in> set (saved (snd (main w)))"
  shows "path = sf
      \<and> (\<exists>st'. doc = JObj st'
            \<and> foreign st' = foreign st
            \<and> (\<forall>k. k \<notin> engine_keys \<longrightarrow> map_of st' k = map_of st k)
            \<and> disk (snd (main w)) sf = Some (json_dumps w (Some 2) doc))"
proof (cases "dict_get st ''status'' JNull = JStr ''COMPLETED''
    \<or> dict_get st ''status'' JNull = JStr ''FAILED''")
  case False
  with main_idle [OF assms(1)] assms(2) show ?thesis by simp
next
  case True
  from main_trigger [OF assms(1) True] assms(2)
  have "(path, doc) \<in> set (saved (snd (transition w cfg sf (prompts_dir cfg) st
      (dict_get st ''status'' JNull) (start w))))" by simp
  from transition_saved [OF this] main_trigger [OF assms(1) True]
  obtain st' where st': "path = sf" "doc = JObj st'" "foreign st' = foreign st"
    "disk (snd (main w)) sf = Some (json_dumps w (Some 2) doc)"
    by auto
  have "\<forall>k. k \<notin> engine_keys \<longrightarrow> map_of st' k = map_of st k"
    using map_of_foreign [of _ st'] map_of_foreign [of _ st] st'(3) by metis
  with st' show ?thesis by simp
qed

theorem transition_keeps_foreign_entries_witness:
  "\<exists>st'. foreign st' = foreign (demo_state ''TEST'' ''COMPLETED'' 3)
      \<and> map_of st' ''history'' = Some (JList [JStr ''started''])
      \<and> map_of st' ''metrics'' = Some (JObj [(''runs'', JInt 7)])
      \<and> saved (snd (main (demo_world demo_config (demo_state ''TEST'' ''COMPLETED'' 3) True)))
          = [(''state.json'', JObj st')]"
proof -
  let ?doc = "JObj [(''status'', JStr ''ACTIVE''), (''phase'', JStr ''PLAN''),
    (''iteration'', JInt 4), (''history'', JList [JStr ''started'']),
    (''metrics'', JObj [(''runs'', JInt 7)])]"
  have mem: "(''state.json'', ?doc)
      \<in> set (saved (snd (main (demo_world demo_config (demo_state ''TEST'' ''COMPLETED'' 3) True))))"
    by (simp add: demo_saved)
  from transition_keeps_foreign_entries [OF demo_loaded mem]
  show ?thesis by (auto simp: demo_saved)
qed




section \<open>Where the engine departs from its description\<close>

text \<open>
  Claim C4. The description has an unreadable config end the invocation silently. On the
  sample project with a malformed config file, \<^verbatim>\<open>json.load\<close> fails and the exception
  leaves \<^verbatim>\<open>main\<close>: only a missing config file is caught.
\<close>

theorem malformed_config_raises:
  "json_loads malformed_config_world ''{'' = None
   \<and> main malformed_config_world = (Raised JSONDecodeError, start malformed_config_world)"
  by (simp add: malformed_config_world_def demo_world_def main_def load_configuration_def)

text \<open>
  Claim C9. The description has the project root taken from the environment. The result of
  an invocation does not depend on the environment at all: the variable is read and then
  not used.
\<close>

theorem project_dir_is_ignored: "main (w\<lparr>environ := e\<rparr>) = main w"
  by (simp add: main_def load_configuration_def resolve_paths_def load_state_def start_def
      environ_irrelevant_transition
      cong: option.case_cong step.case_cong json.case_cong prod.case_cong)

end
